(* ===== verification/Prelude.thy ===== *)
theory Prelude
  imports Main "HOL-Library.Sublist"
begin

text \<open>
  Shared vocabulary of the development. Python \<open>str\<close> values are modelled as
  \<^typ>\<open>string\<close>, a list of 8-bit characters: the model covers the code points
  below 256 (Latin-1), which is where every literal of the program and every
  character the stripping and matching code tests lives. Exceptions are
  modelled by their message \<open>str(e)\<close>, because that is all the program
  ever reads of one (\<open>f"Error: {e}"\<close>). The collection \<open>py_eval\<close> gathers
  the equations that evaluate the model on closed strings, so that witnesses
  are \<open>simp add: py_eval\<close>.
\<close>

type_synonym pystr = string
type_synonym exc = string

abbreviation nl :: char where
  "nl \<equiv> CHR ''\<newline>''"

abbreviation fence :: string where
  "fence \<equiv> ''```''"

named_theorems py_eval "equations that evaluate the model on closed strings"

subsection \<open>Lists: prefixes taken with take\<close>

lemma take_length_eq_prefix:
  "take (length p) s = p \<longleftrightarrow> prefix p s"
proof (induction p arbitrary: s)
  case (Cons a p)
  then show ?case by (cases s) auto
qed simp

text \<open>
  A three-character pattern without a newline that is a prefix of
  \<open>x @ nl # t\<close> already lies inside \<open>x\<close>.
\<close>

lemma take3_before_nl:
  "take 3 (x @ nl # t) = fence \<Longrightarrow> take 3 x = fence"
  by (cases x; cases "tl x"; cases "tl (tl x)") (auto simp: numeral_3_eq_3)

lemma take3_fence_sublist:
  "take 3 s = fence \<Longrightarrow> sublist fence s"
  using take_length_eq_prefix [of fence s] by (simp add: numeral_3_eq_3)

end
