(* ===== verification/Py_Str.thy ===== *)
theory Py_Str
  imports Prelude
begin

text \<open>
  The Python string built-ins the program calls, translated from CPython's
  documented behaviour at the call sites of \<open>src/resume_parser.py\<close>:
  \<open>str.strip()\<close> (twice on line 80, around the \<open>re.sub\<close>),
  \<open>"\n".join\<close> (line 71) and \<open>str.replace\<close> (line 77). Each is total:
  none of them raises for the arguments the program passes. The lemmas are
  the facts the cleaning and prompt proofs use: \<open>strip\<close> leaves no white
  space at either end and removes exactly the white space around a stripped
  text; \<open>replace\<close> replaces the first occurrence of a pattern that
  occurs nowhere before it; a pattern free of the separator occurs in a
  joined string only inside a piece.
\<close>

subsection \<open>White space and strip\<close>

text \<open>
  \<open>str.isspace\<close> on code points below 256: TAB to CR, the four
  information separators 0x1C to 0x1F, SPACE, NEL (0x85) and NBSP (0xA0).
\<close>

definition py_isspace :: "char \<Rightarrow> bool" where
  "py_isspace c = (let n = (of_char c :: nat) in
     (9 \<le> n \<and> n \<le> 13) \<or> (28 \<le> n \<and> n \<le> 32) \<or> n = 133 \<or> n = 160)"

definition py_lstrip :: "pystr \<Rightarrow> pystr" where
  "py_lstrip s = dropWhile py_isspace s"

definition py_rstrip :: "pystr \<Rightarrow> pystr" where
  "py_rstrip s = rev (dropWhile py_isspace (rev s))"

definition py_strip :: "pystr \<Rightarrow> pystr" where
  "py_strip s = py_rstrip (py_lstrip s)"

definition is_stripped :: "pystr \<Rightarrow> bool" where
  "is_stripped s \<longleftrightarrow> s = [] \<or> (\<not> py_isspace (hd s) \<and> \<not> py_isspace (last s))"

declare py_isspace_def [py_eval] py_lstrip_def [py_eval] py_rstrip_def [py_eval]
  py_strip_def [py_eval] is_stripped_def [py_eval]

subsection \<open>join\<close>

text \<open>\<open>sep.join(xs)\<close>: the elements with \<open>sep\<close> between neighbours.\<close>

fun py_join :: "pystr \<Rightarrow> pystr list \<Rightarrow> pystr" where
  "py_join sep [] = []"
| "py_join sep [x] = x"
| "py_join sep (x # y # zs) = x @ sep @ py_join sep (y # zs)"

subsection \<open>replace\<close>

text \<open>
  \<open>s.replace(old, new)\<close> with a non-empty \<open>old\<close>: scan from the left,
  replace each occurrence and continue after it, so occurrences do not
  overlap and the inserted text is never scanned again.
\<close>

fun replace_ne :: "pystr \<Rightarrow> pystr \<Rightarrow> pystr \<Rightarrow> pystr" where
  "replace_ne old new [] = []"
| "replace_ne old new (c # cs) =
     (if old \<noteq> [] \<and> take (length old) (c # cs) = old
      then new @ replace_ne old new (drop (length old) (c # cs))
      else c # replace_ne old new cs)"

text \<open>With an empty \<open>old\<close>, Python inserts \<open>new\<close> before every character and at the end.\<close>

definition py_replace :: "pystr \<Rightarrow> pystr \<Rightarrow> pystr \<Rightarrow> pystr" where
  "py_replace s old new =
     (if old = [] then new @ concat (map (\<lambda>c. c # new) s) else replace_ne old new s)"

declare py_replace_def [py_eval]

subsection \<open>Lemmas on strip\<close>

lemma py_isspace_nl [simp]: "py_isspace nl"
  by (simp add: py_isspace_def)

lemma py_isspace_backtick [simp]: "\<not> py_isspace CHR ''`''"
  by (simp add: py_isspace_def)

lemma py_lstrip_append_space:
  "\<forall>c\<in>set w. py_isspace c \<Longrightarrow> py_lstrip (w @ s) = py_lstrip s"
  by (induction w) (auto simp: py_lstrip_def)

lemma py_rstrip_append_space:
  "\<forall>c\<in>set w. py_isspace c \<Longrightarrow> py_rstrip (s @ w) = py_rstrip s"
  by (simp add: py_rstrip_def dropWhile_append)

lemma py_lstrip_stripped:
  "is_stripped s \<Longrightarrow> py_lstrip s = s"
  by (cases s) (auto simp: py_lstrip_def is_stripped_def)

lemma py_rstrip_stripped:
  "is_stripped s \<Longrightarrow> py_rstrip s = s"
  by (cases s rule: rev_cases) (auto simp: py_rstrip_def is_stripped_def)

lemma py_strip_stripped [simp]:
  "is_stripped s \<Longrightarrow> py_strip s = s"
  by (simp add: py_strip_def py_lstrip_stripped py_rstrip_stripped)

lemma py_lstrip_hd:
  "py_lstrip s \<noteq> [] \<Longrightarrow> \<not> py_isspace (hd (py_lstrip s))"
  by (simp add: py_lstrip_def hd_dropWhile)

lemma py_rstrip_last:
  "py_rstrip s \<noteq> [] \<Longrightarrow> \<not> py_isspace (last (py_rstrip s))"
  by (simp add: py_rstrip_def last_rev hd_dropWhile)

lemma py_rstrip_keeps_hd:
  assumes "py_rstrip s \<noteq> []"
  shows "hd (py_rstrip s) = hd s"
proof -
  obtain u v where "rev s = u @ v" and "dropWhile py_isspace (rev s) = v"
    by (metis takeWhile_dropWhile_id)
  then have "s = rev v @ rev u" and "py_rstrip s = rev v"
    by (simp_all add: py_rstrip_def rev_swap)
  with assms show ?thesis by simp
qed

lemma py_strip_is_stripped [simp]: "is_stripped (py_strip s)"
proof (cases "py_strip s = []")
  case False
  then have ne: "py_rstrip (py_lstrip s) \<noteq> []" by (simp add: py_strip_def)
  then have "py_lstrip s \<noteq> []" by (auto simp: py_rstrip_def)
  then have "\<not> py_isspace (hd (py_lstrip s))" by (rule py_lstrip_hd)
  with ne have "\<not> py_isspace (hd (py_strip s))"
    by (simp add: py_strip_def py_rstrip_keeps_hd)
  moreover have "\<not> py_isspace (last (py_strip s))"
    using ne by (simp add: py_strip_def py_rstrip_last)
  ultimately show ?thesis by (simp add: is_stripped_def)
qed (simp add: is_stripped_def)

lemma is_stripped_around:
  "x \<noteq> [] \<Longrightarrow> y \<noteq> [] \<Longrightarrow> is_stripped x \<Longrightarrow> is_stripped y \<Longrightarrow> is_stripped (x @ m @ y)"
  by (simp add: is_stripped_def)

lemma py_strip_frame:
  assumes "\<forall>c\<in>set w1. py_isspace c" and "\<forall>c\<in>set w2. py_isspace c" and "is_stripped b"
  shows "py_strip (w1 @ b @ w2) = b"
proof (cases b)
  case Nil
  with assms(1,2) show ?thesis
    by (auto simp: py_strip_def py_lstrip_def py_rstrip_def dropWhile_eq_Nil_conv dest: set_dropWhileD)
next
  case (Cons c cs)
  have "py_lstrip (w1 @ b @ w2) = py_lstrip (b @ w2)"
    using assms(1) by (rule py_lstrip_append_space)
  also have "\<dots> = b @ w2"
    using assms(3) Cons by (simp add: py_lstrip_def is_stripped_def)
  finally have "py_strip (w1 @ b @ w2) = py_rstrip (b @ w2)" by (simp add: py_strip_def)
  also have "\<dots> = py_rstrip b" using assms(2) by (rule py_rstrip_append_space)
  also have "\<dots> = b" using assms(3) by (rule py_rstrip_stripped)
  finally show ?thesis .
qed

subsection \<open>Lemmas on join and replace\<close>

lemma py_join_Cons_char [simp]: "py_join sep ((c # x) # xs) = c # py_join sep (x # xs)"
  by (cases xs) auto

lemma py_join_snoc:
  "xs \<noteq> [] \<Longrightarrow> py_join sep (xs @ [y]) = py_join sep xs @ sep @ y"
proof (induction xs)
  case (Cons x xs)
  then show ?case by (cases xs) auto
qed simp

text \<open>
  The first occurrence of \<open>old\<close> in \<open>a @ old @ b\<close> is the displayed one
  when none starts inside \<open>a\<close>, that is, when \<open>old\<close> is not a substring
  of \<open>a @ butlast old\<close>.
\<close>

lemma first_occurrence_inside:
  assumes "take (length old) (a @ old @ b) = old" and "a \<noteq> []"
  shows "sublist old (a @ butlast old)"
proof -
  have p1: "prefix old (a @ old @ b)"
    using assms(1) take_length_eq_prefix by blast
  have "prefix (a @ butlast old) (a @ old @ b)"
    by (simp add: prefixeq_butlast)
  moreover have "length old \<le> length (a @ butlast old)"
    using assms(2) by (cases old rule: rev_cases) (auto simp: Suc_le_eq)
  ultimately have "prefix old (a @ butlast old)"
    using p1 prefix_length_prefix by blast
  then show ?thesis by (rule prefix_imp_sublist)
qed

lemma replace_ne_frame:
  assumes "old \<noteq> []" and "\<not> sublist old (a @ butlast old)"
  shows "replace_ne old new (a @ old @ b) = a @ new @ replace_ne old new b"
  using assms(2)
proof (induction a)
  case Nil
  from assms(1) have "replace_ne old new (old @ b) = new @ replace_ne old new b"
    by (cases old) simp_all
  then show ?case by simp
next
  case (Cons c a)
  have "\<not> take (length old) ((c # a) @ old @ b) = old"
    using Cons.prems first_occurrence_inside by blast
  moreover have "\<not> sublist old (a @ butlast old)"
    using Cons.prems by (auto simp: sublist_Cons_right)
  ultimately show ?case using Cons.IH by simp
qed

text \<open>
  A pattern that does not contain the separator character occurs in a
  joined string only inside one of the pieces.
\<close>

lemma not_sublist_sep:
  assumes "p \<noteq> []" and "c \<notin> set p" and "\<not> sublist p x" and "\<not> sublist p y"
  shows "\<not> sublist p (x @ c # y)"
proof
  assume "sublist p (x @ c # y)"
  then consider "sublist p x" | "sublist p (c # y)"
    | p1 p2 where "p = p1 @ p2" "suffix p1 x" "prefix p2 (c # y)" "p2 \<noteq> []"
    by (auto simp: sublist_append) (metis append_Nil2 suffix_imp_sublist)
  then show False
  proof cases
    case 2
    with assms show ?thesis
      by (cases p) (auto simp: sublist_Cons_right)
  next
    case 3
    then show ?thesis using assms(2) by (cases p2) auto
  qed (use assms in auto)
qed

lemma not_sublist_join:
  assumes "p \<noteq> []" and "c \<notin> set p" and "\<forall>l\<in>set xs. \<not> sublist p l"
  shows "\<not> sublist p (py_join [c] xs)"
  using assms(3)
proof (induction "[c]" xs rule: py_join.induct)
  case 1
  then show ?case using assms(1) by (cases p) auto
next
  case (3 x y zs)
  then show ?case using not_sublist_sep [OF assms(1,2)] by simp
qed simp

lemma py_strip_subseq: "subseq (py_strip s) s"
proof -
  have l: "suffix (py_lstrip s) s" by (simp add: py_lstrip_def suffix_dropWhile)
  have "rev (py_lstrip s) = takeWhile py_isspace (rev (py_lstrip s)) @ dropWhile py_isspace (rev (py_lstrip s))"
    by simp
  then have "py_lstrip s = py_rstrip (py_lstrip s) @ rev (takeWhile py_isspace (rev (py_lstrip s)))"
    by (metis py_rstrip_def rev_append rev_rev_ident)
  then have "prefix (py_strip s) (py_lstrip s)"
    by (metis py_strip_def prefixI)
  with l show ?thesis
    by (meson prefix_imp_subseq subseq_order.trans suffix_imp_subseq)
qed

end
