(* ===== verification/Fence_Regex.thy ===== *)
theory Fence_Regex
  imports Py_Str
begin

text \<open>
  The regular-expression substitution of \<open>parse_resume_with_gemini\<close>
  (\<open>src/resume_parser.py\<close>, line 80):
  \<^verbatim>\<open>re.sub(r"^```(?:json)?|```$", "", text, flags=re.MULTILINE)\<close>.
  The pattern is kept as syntax (\<open>re\<close>, the fragment of Python's regex
  language it uses) and run by a backtracking matcher with Python's
  semantics for that fragment: alternatives are tried left to right and the
  first that succeeds wins, \<open>?\<close> is greedy, and under \<open>re.MULTILINE\<close>
  \<open>^\<close> holds at the start and after every newline, \<open>$\<close> at the end and
  before every newline. \<open>re.sub\<close> scans positions from the left and
  replaces each match, resuming after it. The scanner \<open>strip_fences\<close> is a
  single-pass reading of the same substitution; their equivalence is the main
  lemma of this theory. The inductive \<open>re_lang\<close> gives the patterns their
  declarative meaning (every way the pattern can match), against which the
  matcher's choice on the fence pattern is shown to be the longest match.
\<close>

subsection \<open>Syntax and matcher\<close>

datatype re = Lit pystr | Bol | Eol | Cat re re | Alt re re | Opt re

definition at_bol :: "pystr \<Rightarrow> nat \<Rightarrow> bool" where
  "at_bol s i \<longleftrightarrow> i = 0 \<or> (0 < i \<and> i \<le> length s \<and> s ! (i - 1) = nl)"

definition at_eol :: "pystr \<Rightarrow> nat \<Rightarrow> bool" where
  "at_eol s i \<longleftrightarrow> i = length s \<or> (i < length s \<and> s ! i = nl)"

text \<open>
  \<open>re_match r s i k\<close> matches \<open>r\<close> at position \<open>i\<close> of \<open>s\<close> and hands the
  end position to the continuation \<open>k\<close> (the rest of the pattern); on
  failure it backtracks into the next alternative. \<open>re_match r s i Some\<close> is
  the end of the match Python's engine reports at \<open>i\<close>.
\<close>

primrec re_match :: "re \<Rightarrow> pystr \<Rightarrow> nat \<Rightarrow> (nat \<Rightarrow> nat option) \<Rightarrow> nat option" where
  "re_match (Lit w) s i k = (if take (length w) (drop i s) = w then k (i + length w) else None)"
| "re_match Bol s i k = (if at_bol s i then k i else None)"
| "re_match Eol s i k = (if at_eol s i then k i else None)"
| "re_match (Cat r1 r2) s i k = re_match r1 s i (\<lambda>j. re_match r2 s j k)"
| "re_match (Alt r1 r2) s i k =
     (case re_match r1 s i k of None \<Rightarrow> re_match r2 s i k | Some e \<Rightarrow> Some e)"
| "re_match (Opt r) s i k = (case re_match r s i k of None \<Rightarrow> k i | Some e \<Rightarrow> Some e)"

text \<open>
  The declarative semantics of a pattern: \<open>re_lang r s i e\<close> says that
  \<open>r\<close> can match the characters of \<open>s\<close> from position \<open>i\<close> to \<open>e\<close>. It
  fixes no priority among the matches; the matcher picks Python's.
\<close>

inductive re_lang :: "re \<Rightarrow> pystr \<Rightarrow> nat \<Rightarrow> nat \<Rightarrow> bool" where
  lit: "take (length w) (drop i s) = w \<Longrightarrow> re_lang (Lit w) s i (i + length w)"
| bol: "at_bol s i \<Longrightarrow> re_lang Bol s i i"
| eol: "at_eol s i \<Longrightarrow> re_lang Eol s i i"
| cat: "re_lang r1 s i j \<Longrightarrow> re_lang r2 s j e \<Longrightarrow> re_lang (Cat r1 r2) s i e"
| alt1: "re_lang r1 s i e \<Longrightarrow> re_lang (Alt r1 r2) s i e"
| alt2: "re_lang r2 s i e \<Longrightarrow> re_lang (Alt r1 r2) s i e"
| opt_some: "re_lang r s i e \<Longrightarrow> re_lang (Opt r) s i e"
| opt_none: "re_lang (Opt r) s i i"

text \<open>The pattern \<open>^```(?:json)?|```$\<close> as Python's parser reads it.\<close>

definition fence_re :: re where
  "fence_re = Alt (Cat Bol (Cat (Lit ''```'') (Opt (Lit ''json'')))) (Cat (Lit ''```'') Eol)"

definition fence_match :: "pystr \<Rightarrow> nat \<Rightarrow> nat option" where
  "fence_match s i = re_match fence_re s i Some"

subsection \<open>Substitution\<close>

text \<open>
  \<open>re.sub\<close> with a literal replacement: at each position, a match is replaced
  and scanning resumes at its end; otherwise the character is copied. A
  matcher result that does not advance is treated as no match; the fence
  pattern never produces one (\<open>fence_match_bounds\<close>).
\<close>

function re_sub_from :: "(pystr \<Rightarrow> nat \<Rightarrow> nat option) \<Rightarrow> pystr \<Rightarrow> pystr \<Rightarrow> nat \<Rightarrow> pystr" where
  "re_sub_from m repl s i =
     (if length s \<le> i then []
      else (case m s i of
              Some e \<Rightarrow> if i < e then repl @ re_sub_from m repl s e
                        else s ! i # re_sub_from m repl s (Suc i)
            | None \<Rightarrow> s ! i # re_sub_from m repl s (Suc i)))"
  by pat_completeness auto
termination
  by (relation "measure (\<lambda>(m, repl, s, i). length s - i)") auto

declare re_sub_from.simps [simp del]

definition re_sub :: "(pystr \<Rightarrow> nat \<Rightarrow> nat option) \<Rightarrow> pystr \<Rightarrow> pystr \<Rightarrow> pystr" where
  "re_sub m repl s = re_sub_from m repl s 0"

subsection \<open>The single-pass scanner\<close>

definition line_end :: "pystr \<Rightarrow> bool" where
  "line_end t \<longleftrightarrow> (case t of [] \<Rightarrow> True | d # _ \<Rightarrow> d = nl)"

text \<open>
  \<open>strip_fences b t\<close> deletes the fences of \<open>t\<close>, where \<open>b\<close> says whether
  \<open>t\<close> starts at the beginning of a line.
\<close>

function strip_fences :: "bool \<Rightarrow> pystr \<Rightarrow> pystr" where
  "strip_fences b [] = []"
| "strip_fences b (c # cs) =
     (if take 3 (c # cs) = fence \<and> (b \<or> line_end (drop 3 (c # cs)))
      then strip_fences False
             (drop (if b \<and> take 4 (drop 3 (c # cs)) = ''json'' then 7 else 3) (c # cs))
      else c # strip_fences (c = nl) cs)"
  by pat_completeness auto
termination
  by (relation "measure (\<lambda>(b, t). length t)") auto

declare fence_re_def [py_eval] fence_match_def [py_eval]
  re_sub_def [py_eval] at_bol_def [py_eval] at_eol_def [py_eval] line_end_def [py_eval]

code_pred re_lang .

inductive_simps re_lang_Lit: "re_lang (Lit w) s i e"
inductive_simps re_lang_Cat: "re_lang (Cat r1 r2) s i e"
inductive_simps re_lang_Alt: "re_lang (Alt r1 r2) s i e"
inductive_simps re_lang_Bol: "re_lang Bol s i e"
inductive_simps re_lang_Eol: "re_lang Eol s i e"
inductive_simps re_lang_Opt: "re_lang (Opt r) s i e"

subsection \<open>The matcher on the fence pattern\<close>

lemma fence_match_unfold:
  "fence_match s i =
     (if take 3 (drop i s) = fence
      then (if at_bol s i then Some (if take 4 (drop (i + 3) s) = ''json'' then i + 7 else i + 3)
            else if at_eol s (i + 3) then Some (i + 3) else None)
      else None)"
  by (simp add: fence_match_def fence_re_def eval_nat_numeral split: option.split)

lemma take_drop_len:
  "take n (drop i s) = w \<Longrightarrow> length w = n \<Longrightarrow> 0 < n \<Longrightarrow> i + n \<le> length s"
  by (cases "i \<le> length s") (auto simp: min_def split: if_splits)

lemma fence_match_bounds:
  "fence_match s i = Some e \<Longrightarrow> i + 3 \<le> e \<and> e \<le> length s"
  by (auto simp: fence_match_unfold split: if_splits dest!: take_drop_len)

lemma at_eol_line_end:
  "j \<le> length s \<Longrightarrow> at_eol s j \<longleftrightarrow> line_end (drop j s)"
  by (cases "drop j s") (auto simp: at_eol_def line_end_def hd_drop_conv_nth dest: arg_cong[of _ _ hd])

lemma strip_fences_unfold:
  "t \<noteq> [] \<Longrightarrow> strip_fences b t =
     (if take 3 t = fence \<and> (b \<or> line_end (drop 3 t))
      then strip_fences False (drop (if b \<and> take 4 (drop 3 t) = ''json'' then 7 else 3) t)
      else hd t # strip_fences (hd t = nl) (tl t))"
  by (cases t) (simp, simp only: strip_fences.simps list.sel)

lemma not_at_bol_after:
  assumes "take n (drop i s) = w" and "length w = n" and "0 < n" and "last w \<noteq> nl"
  shows "\<not> at_bol s (i + n)"
proof -
  have len: "i + n \<le> length s" using assms(1-3) by (rule take_drop_len)
  have "w ! (n - 1) = s ! (i + (n - 1))"
    using assms(3) len by (simp add: assms(1)[symmetric] nth_take nth_drop)
  moreover have "last w = w ! (n - 1)"
    using assms(2,3) by (auto simp: last_conv_nth)
  ultimately show ?thesis
    using assms(3,4) by (auto simp: at_bol_def)
qed

lemma at_bol_Suc:
  "i < length s \<Longrightarrow> at_bol s (Suc i) \<longleftrightarrow> s ! i = nl"
  by (simp add: at_bol_def)

lemma fence_lang:
  "re_lang fence_re s i e \<longleftrightarrow>
     take 3 (drop i s) = fence \<and>
     ((at_bol s i \<and> (e = i + 3 \<or> (e = i + 7 \<and> take 4 (drop (i + 3) s) = ''json''))) \<or>
      (at_eol s (i + 3) \<and> e = i + 3))"
  by (auto simp: fence_re_def re_lang_Alt re_lang_Cat re_lang_Lit re_lang_Bol re_lang_Eol
      re_lang_Opt eval_nat_numeral)

subsection \<open>Equivalence of re.sub and the scanner\<close>

lemma re_sub_from_fence:
  assumes "i \<le> length s"
  shows "re_sub_from fence_match [] s i = strip_fences (at_bol s i) (drop i s)"
  using assms
proof (induction "length s - i" arbitrary: i rule: less_induct)
  case less
  show ?case
  proof (cases "i < length s")
    case False
    with less.prems show ?thesis by (simp add: re_sub_from.simps)
  next
    case inside: True
    define t where "t = drop i s"
    have t_ne: "t \<noteq> []" using inside by (simp add: t_def)
    have hd_t: "hd t = s ! i" and tl_t: "tl t = drop (Suc i) s"
      using inside by (simp_all add: t_def hd_drop_conv_nth drop_Suc tl_drop)
    show ?thesis
    proof (cases "take 3 t = fence \<and> (at_bol s i \<or> line_end (drop 3 t))")
      case True
      define k where "k = (if at_bol s i \<and> take 4 (drop 3 t) = ''json'' then 7 else 3::nat)"
      have f3: "take 3 (drop i s) = fence" using True by (simp add: t_def)
      then have i3: "i + 3 \<le> length s" by (rule take_drop_len) simp_all
      have eol: "at_eol s (i + 3) \<longleftrightarrow> line_end (drop 3 t)"
        using i3 by (simp add: at_eol_line_end t_def add.commute)
      have m: "fence_match s i = Some (i + k)"
        using True f3 eol by (auto simp: fence_match_unfold k_def t_def add.commute)
      have nb: "\<not> at_bol s (i + k)"
      proof (cases "k = 7")
        case True
        then have j: "take 4 (drop (i + 3) s) = ''json''"
          by (simp add: k_def t_def add.commute split: if_splits)
        have "\<not> at_bol s (i + 3 + 4)"
          by (rule not_at_bol_after [OF j]) simp_all
        with True show ?thesis by (simp add: add.commute)
      next
        case False
        then have "k = 3" by (simp add: k_def split: if_splits)
        moreover have "\<not> at_bol s (i + 3)"
          by (rule not_at_bol_after [OF f3]) simp_all
        ultimately show ?thesis by simp
      qed
      have bnd: "i + k \<le> length s" using fence_match_bounds [OF m] by simp
      have "re_sub_from fence_match [] s i = re_sub_from fence_match [] s (i + k)"
        using inside m by (simp add: re_sub_from.simps k_def)
      also have "\<dots> = strip_fences (at_bol s (i + k)) (drop (i + k) s)"
        using bnd inside by (intro less.hyps) (auto simp: k_def)
      also have "\<dots> = strip_fences False (drop k t)"
        using nb by (simp add: t_def add.commute)
      also have "\<dots> = strip_fences (at_bol s i) t"
        using True by (simp add: strip_fences_unfold [OF t_ne] k_def)
      finally show ?thesis by (simp add: t_def)
    next
      case False
      have f3: "take 3 (drop i s) = fence \<Longrightarrow> i + 3 \<le> length s"
        using take_drop_len [of 3 i s fence] by simp
      have m: "fence_match s i = None"
        using False f3 by (auto simp: fence_match_unfold t_def at_eol_line_end add.commute)
      have "re_sub_from fence_match [] s i = s ! i # re_sub_from fence_match [] s (Suc i)"
        using inside m by (simp add: re_sub_from.simps)
      also have "\<dots> = s ! i # strip_fences (at_bol s (Suc i)) (drop (Suc i) s)"
        using inside by (simp add: less.hyps)
      also have "\<dots> = strip_fences (at_bol s i) t"
        using False inside by (auto simp: strip_fences_unfold [OF t_ne] hd_t tl_t at_bol_Suc)
      finally show ?thesis by (simp add: t_def)
    qed
  qed
qed

subsection \<open>Substitution by the empty string only deletes\<close>

lemma re_sub_from_subseq:
  "subseq (re_sub_from m [] s i) (drop i s)"
proof (induction "length s - i" arbitrary: i rule: less_induct)
  case less
  show ?case
  proof (cases "i < length s")
    case False
    then show ?thesis by (simp add: re_sub_from.simps)
  next
    case True
    then have d: "drop i s = s ! i # drop (Suc i) s" by (simp add: Cons_nth_drop_Suc)
    have next_char: "subseq (s ! i # re_sub_from m [] s (Suc i)) (drop i s)"
      using True less.hyps [of "Suc i"] by (simp add: d)
    show ?thesis
    proof (cases "m s i")
      case None
      with True next_char show ?thesis by (simp add: re_sub_from.simps)
    next
      case (Some e)
      show ?thesis
      proof (cases "i < e")
        case True
        have "subseq (re_sub_from m [] s e) (drop e s)"
          using True \<open>i < length s\<close> by (intro less.hyps) auto
        moreover have "suffix (drop e s) (drop i s)"
          using True by (metis drop_drop le_add_diff_inverse2 less_imp_le suffix_drop)
        ultimately have "subseq (re_sub_from m [] s e) (drop i s)"
          using subseq_order.trans suffix_imp_subseq by blast
        with Some True \<open>i < length s\<close> show ?thesis by (simp add: re_sub_from.simps)
      next
        case False
        with Some \<open>i < length s\<close> next_char show ?thesis by (simp add: re_sub_from.simps)
      qed
    qed
  qed
qed

subsection \<open>The scanner on fenced text\<close>

lemma strip_fences_Cons_plain:
  "take 3 (c # x) \<noteq> fence \<Longrightarrow> strip_fences b (c # x) = c # strip_fences (c = nl) x"
  by (simp only: strip_fences.simps(2) simp_thms if_False)

lemma strip_fences_absent:
  "\<not> sublist fence x \<Longrightarrow> strip_fences b x = x"
proof (induction x arbitrary: b)
  case (Cons c x)
  have "take 3 (c # x) \<noteq> fence"
    using Cons.prems take3_fence_sublist by blast
  moreover have "\<not> sublist fence x"
    using Cons.prems by (auto simp: sublist_Cons_right)
  ultimately show ?case using Cons.IH by (simp del: strip_fences.simps add: strip_fences_Cons_plain)
qed simp

lemma strip_fences_before_nl:
  "\<not> sublist fence x \<Longrightarrow> strip_fences b (x @ nl # t) = x @ nl # strip_fences True t"
proof (induction x arbitrary: b)
  case Nil
  show ?case by simp
next
  case (Cons c x)
  have "take 3 ((c # x) @ nl # t) \<noteq> fence"
  proof
    assume "take 3 ((c # x) @ nl # t) = fence"
    then have "take 3 (c # x) = fence" by (rule take3_before_nl)
    with Cons.prems show False using take3_fence_sublist by blast
  qed
  moreover have "\<not> sublist fence x"
    using Cons.prems by (auto simp: sublist_Cons_right)
  ultimately show ?case using Cons.IH by (simp del: strip_fences.simps add: strip_fences_Cons_plain)
qed

lemma strip_fences_open:
  "tag \<in> {[], ''json''} \<Longrightarrow> strip_fences True (fence @ tag @ nl # t) = nl # strip_fences True t"
  by auto

lemma strip_fences_close [simp]: "strip_fences True fence = []"
  by simp

text \<open>
  A fence followed by a newline-free tag: Python's \<open>(?:json)?\<close> takes
  the tag only when it starts with \<open>json\<close>.
\<close>

lemma take4_json_prefix:
  assumes "nl \<notin> set t" and "take 4 (t @ nl # r) = ''json''"
  shows "prefix ''json'' t"
proof (cases "4 \<le> length t")
  case True
  with assms(2) have "take 4 t = ''json''" by simp
  then show ?thesis by (metis take_is_prefix)
next
  case False
  then have "nl \<in> set (take 4 (t @ nl # r))"
    by (simp add: take_append take_Cons')
  with assms(2) show ?thesis by simp
qed

lemma strip_fences_open_other:
  assumes "nl \<notin> set t" and "\<not> prefix ''json'' t"
  shows "strip_fences True (fence @ t @ nl # r) = strip_fences False (t @ nl # r)"
proof -
  have "take 4 (t @ nl # r) \<noteq> ''json''"
    using assms take4_json_prefix by blast
  then show ?thesis by simp
qed

lemma strip_fences_close_line:
  assumes "\<not> sublist fence rest"
  shows "strip_fences True (fence @ nl # rest) = nl # rest"
proof -
  have "strip_fences True (fence @ nl # rest) = strip_fences False (nl # rest)"
    by simp
  also have "\<dots> = nl # strip_fences True rest"
    by (simp del: strip_fences.simps add: strip_fences_Cons_plain)
  finally show ?thesis using assms by (simp add: strip_fences_absent)
qed


subsection \<open>Properties\<close>

text \<open>
  C2: on every string, Python's \<open>re.sub\<close> of the fence pattern with the
  empty replacement, run by the backtracking matcher, equals the
  single-pass scanner \<open>strip_fences\<close> started at the beginning of a line.
\<close>

theorem re_sub_fence_eq_strip_fences:
  "re_sub fence_match [] s = strip_fences True s"
  using re_sub_from_fence [of 0 s] by (simp add: re_sub_def at_bol_def)

text \<open>
  C11: every match of the fence pattern is three characters long
  (a bare fence) or seven (a fence with the tag \<open>json\<close>), and lies
  inside the string.
\<close>

theorem fence_match_lengths:
  "fence_match s i = Some e \<Longrightarrow> (e = i + 3 \<or> e = i + 7) \<and> e \<le> length s"
  using fence_match_bounds [of s i e]
  by (auto simp: fence_match_unfold split: if_splits)

theorem fence_match_lengths_witness:
  "fence_match (''```json'' @ nl # ''{}'') 0 = Some 7 \<and> ((7::nat) = 0 + 3 \<or> (7::nat) = 0 + 7) \<and>
   7 \<le> length (''```json'' @ nl # ''{}'')"
proof -
  have m: "fence_match (''```json'' @ nl # ''{}'') 0 = Some 7"
    by (simp add: fence_match_unfold at_bol_def)
  show ?thesis using fence_match_lengths [OF m] m by simp
qed

text \<open>
  C12: on the fence pattern, the match Python's priorities choose is the
  longest one: with the tag \<open>json\<close> present at a line start, the whole
  seven characters go.
\<close>

theorem fence_match_longest:
  "fence_match s i = Some e \<Longrightarrow> re_lang fence_re s i e' \<Longrightarrow> e' \<le> e"
  by (auto simp: fence_match_unfold fence_lang split: if_splits)

theorem fence_match_longest_witness:
  "fence_match ''```json'' 0 = Some 7 \<and> re_lang fence_re ''```json'' 0 3 \<and> (3::nat) \<le> 7"
proof -
  have m: "fence_match ''```json'' 0 = Some 7"
    by (simp add: fence_match_unfold at_bol_def)
  have l: "re_lang fence_re ''```json'' 0 3"
    by (simp add: fence_lang at_bol_def)
  show ?thesis using fence_match_longest [OF m l] m l by simp
qed

end
