(* ===== verification/Gemini.thy ===== *)
theory Gemini
  imports Fence_Regex
begin

text \<open>
  The two helper functions of \<open>src/resume_parser.py\<close> and the prompt they
  use: \<open>PROMPT_TEMPLATE\<close> (lines 14 to 66), \<open>extract_text_from_pdf\<close>
  (lines 69 to 72) and \<open>parse_resume_with_gemini\<close> (lines 75 to 81). The
  PDF library and the remote model are parameters: \<open>read_pdf\<close> stands for
  \<open>fitz.open(stream=uploaded_file.read(), filetype="pdf")\<close> followed by
  \<open>page.get_text()\<close> on every page, and \<open>generate\<close> for
  \<open>genai.GenerativeModel(name).generate_content(prompt).text\<close>; either may
  raise, which is the \<open>Inl\<close> side of its result. The lemmas show that the
  prompt is the template with the resume text inserted once and verbatim,
  that the cleaning step returns the body of a fenced reply exactly, and
  what it hands on for the two fenced replies it does not reduce to the body:
  a fence tagged other than \<open>json\<close>, and commentary after the closing
  fence.
\<close>

type_synonym 'f pdf_reader = "'f \<Rightarrow> exc + pystr list"
type_synonym generator = "pystr \<Rightarrow> pystr \<Rightarrow> exc + pystr"

subsection \<open>The prompt template\<close>

text \<open>
  The triple-quoted literal is the list of its source lines joined by
  newlines; it opens with the newline after \<open>"""\<close> and ends with the
  newline before the closing \<open>"""\<close>.
\<close>

definition template_lines :: "pystr list" where
  \<open>template_lines = [
     ''You are an intelligent resume parser designed to extract detailed candidate information in a precise structured JSON format.'',
     '''',
     ''From the raw resume text below, extract and organize the following data:'',
     '''',
     ''Return the output in *exactly* this JSON format (with accurate nesting and field names):'',
     '''',
     ''{'',
     ''  "Skills": {'',
     ''    "Languages": [...],'',
     ''    "Technologies": [...],'',
     ''    "Core": [...]'',
     ''  },'',
     ''  "Certifications": ['',
     ''    ...'',
     ''  ],'',
     ''  "Projects": ['',
     ''    {'',
     ''      "title": "...",'',
     ''      "date": "...",'',
     ''      "details": ['',
     ''        "...",'',
     ''        "..."'',
     ''      ]'',
     ''    },'',
     ''    ...'',
     ''  ],'',
     ''  "Work Experience": ['',
     ''    {'',
     ''      "role": "...",'',
     ''      "organization": "...",'',
     ''      "location": "...", // if not available, use null'',
     ''      "date": "...",'',
     ''      "responsibilities": ['',
     ''        "...",'',
     ''        "..."'',
     ''      ]'',
     ''    },'',
     ''    ...'',
     ''  ]'',
     ''}'',
     '''',
     ''Rules:'',
     ''- Classify "Skills" into three categories: Languages, Technologies, Core (conceptual/academic).'',
     ''- Each "Project" should include a title, date (if available), and bullet point descriptions.'',
     ''- "Work Experience" must include role, organization, date range, location (null if not mentioned), and responsibilities as bullet points.'',
     ''- Only return the JSON object. No explanations, headings, or comments.'',
     ''- If any field has no data, use an empty list [] or null appropriately.'',
     '''',
     ''Now, extract from the resume below:'',
     '''',
     ''{resume_text}'']\<close>

definition PROMPT_TEMPLATE :: pystr where
  "PROMPT_TEMPLATE = py_join [nl] ([] # template_lines @ [[]])"

definition placeholder :: pystr where
  "placeholder = ''{resume_text}''"

subsection \<open>The helpers\<close>

definition extract_text_from_pdf :: "'f pdf_reader \<Rightarrow> 'f \<Rightarrow> exc + pystr" where
  "extract_text_from_pdf read_pdf uploaded_file =
     (case read_pdf uploaded_file of
        Inl e \<Rightarrow> Inl e
      | Inr pages \<Rightarrow> Inr (py_join [nl] pages))"

definition build_prompt :: "pystr \<Rightarrow> pystr" where
  "build_prompt resume_text = py_replace PROMPT_TEMPLATE placeholder resume_text"

definition clean_response :: "pystr \<Rightarrow> pystr" where
  "clean_response text = py_strip (re_sub fence_match [] (py_strip text))"

definition gemini_model :: pystr where
  "gemini_model = ''gemini-1.5-flash''"

definition parse_resume_with_gemini :: "generator \<Rightarrow> pystr \<Rightarrow> exc + pystr" where
  "parse_resume_with_gemini generate resume_text =
     (case generate gemini_model (build_prompt resume_text) of
        Inl e \<Rightarrow> Inl e
      | Inr response_text \<Rightarrow> Inr (clean_response response_text))"

text \<open>The text of the template in front of the placeholder.\<close>

definition prompt_head :: pystr where
  "prompt_head = py_join [nl] ([] # butlast template_lines) @ [nl]"

declare template_lines_def [py_eval] PROMPT_TEMPLATE_def [py_eval] placeholder_def [py_eval]
  build_prompt_def [py_eval] clean_response_def [py_eval] prompt_head_def [py_eval]

subsection \<open>The template around its placeholder\<close>

lemma template_lines_split: "template_lines = butlast template_lines @ [placeholder]"
  by (simp add: template_lines_def placeholder_def)

lemma PROMPT_TEMPLATE_split: "PROMPT_TEMPLATE = prompt_head @ placeholder @ [nl]"
proof -
  define xs where "xs = [] # butlast (template_lines :: pystr list)"
  have "PROMPT_TEMPLATE = py_join [nl] ((xs @ [placeholder]) @ [[]])"
    unfolding PROMPT_TEMPLATE_def xs_def by (subst template_lines_split) simp
  also have "\<dots> = py_join [nl] (xs @ [placeholder]) @ [nl]"
    by (subst py_join_snoc) (simp_all add: xs_def)
  also have "py_join [nl] (xs @ [placeholder]) = py_join [nl] xs @ [nl] @ placeholder"
    by (rule py_join_snoc) (simp add: xs_def)
  finally show ?thesis by (simp add: prompt_head_def xs_def)
qed

lemma template_front_free: "\<forall>l\<in>set (butlast template_lines). \<not> sublist placeholder l"
  by (simp add: template_lines_def placeholder_def sublist_code)

lemma placeholder_first: "\<not> sublist placeholder (prompt_head @ butlast placeholder)"
proof -
  have ph: "placeholder \<noteq> []" "nl \<notin> set placeholder"
    by (simp_all add: placeholder_def)
  have "\<not> sublist placeholder (py_join [nl] ([] # butlast template_lines))"
    using ph template_front_free by (intro not_sublist_join) (auto simp: placeholder_def)
  moreover have "\<not> sublist placeholder (butlast placeholder)"
  proof
    assume "sublist placeholder (butlast placeholder)"
    then have "length placeholder \<le> length (butlast placeholder)" by (rule sublist_length_le)
    then show False by (simp add: placeholder_def)
  qed
  ultimately show ?thesis
    using not_sublist_sep [OF ph] by (simp add: prompt_head_def)
qed

subsection \<open>The cleaning step\<close>

lemma clean_response_scanner:
  "clean_response r = py_strip (strip_fences True (py_strip r))"
  using re_sub_from_fence [of 0 "py_strip r"] by (simp add: clean_response_def re_sub_def at_bol_def)

lemma fenced_is_stripped: "is_stripped (fence @ tag @ nl # b @ nl # fence)"
  by (simp add: is_stripped_def)

lemma strip_fences_fenced:
  assumes "tag \<in> {[], ''json''}" and "\<not> sublist fence b"
  shows "strip_fences True (fence @ tag @ nl # b @ nl # fence) = nl # b @ [nl]"
proof -
  have "strip_fences True (fence @ tag @ nl # b @ nl # fence) = nl # strip_fences True (b @ nl # fence)"
    using assms(1) by (rule strip_fences_open)
  also have "\<dots> = nl # b @ nl # strip_fences True fence"
    using assms(2) by (simp del: strip_fences.simps add: strip_fences_before_nl)
  finally show ?thesis by simp
qed

lemma py_strip_nl_frame: "is_stripped b \<Longrightarrow> py_strip (nl # b @ [nl]) = b"
  using py_strip_frame [of "[nl]" "[nl]" b] by simp

lemma strip_fences_other_tag:
  assumes "nl \<notin> set t" and "\<not> prefix ''json'' t" and "\<not> sublist fence t"
    and "\<not> sublist fence b"
  shows "strip_fences True (fence @ t @ nl # b @ nl # fence) = t @ nl # b @ [nl]"
proof -
  have "strip_fences True (fence @ t @ nl # b @ nl # fence) = strip_fences False (t @ nl # b @ nl # fence)"
    using assms(1,2) by (rule strip_fences_open_other)
  also have "\<dots> = t @ nl # strip_fences True (b @ nl # fence)"
    using assms(3) by (rule strip_fences_before_nl)
  also have "\<dots> = t @ nl # b @ [nl]"
    using assms(4) by (simp del: strip_fences.simps add: strip_fences_before_nl)
  finally show ?thesis .
qed

lemma strip_fences_trailing:
  assumes "tag \<in> {[], ''json''}" and "\<not> sublist fence b" and "\<not> sublist fence rest"
  shows "strip_fences True (fence @ tag @ nl # b @ nl # fence @ nl # rest) = nl # b @ nl # nl # rest"
proof -
  have "strip_fences True (fence @ tag @ nl # b @ nl # fence @ nl # rest) =
      nl # strip_fences True (b @ nl # fence @ nl # rest)"
    using assms(1) by (rule strip_fences_open)
  also have "\<dots> = nl # b @ nl # strip_fences True (fence @ nl # rest)"
    using assms(2) by (simp del: strip_fences.simps add: strip_fences_before_nl)
  also have "\<dots> = nl # b @ nl # nl # rest"
    by (simp only: strip_fences_close_line [OF assms(3)])
  finally show ?thesis .
qed

lemma build_prompt_eq: "build_prompt t = prompt_head @ t @ [nl]"
proof -
  have ne: "placeholder \<noteq> []" by (simp add: placeholder_def)
  have "build_prompt t = replace_ne placeholder t (prompt_head @ placeholder @ [nl])"
    using ne by (simp add: build_prompt_def py_replace_def PROMPT_TEMPLATE_split)
  also have "\<dots> = prompt_head @ t @ replace_ne placeholder t [nl]"
    by (rule replace_ne_frame [OF ne placeholder_first])
  also have "replace_ne placeholder t [nl] = [nl]"
    by (simp add: placeholder_def)
  finally show ?thesis .
qed

lemma clean_response_fenced_body:
  assumes "tag \<in> {[], ''json''}" and "\<forall>c\<in>set w1. py_isspace c" and "\<forall>c\<in>set w2. py_isspace c"
    and "is_stripped b" and "\<not> sublist fence b"
  shows "clean_response (w1 @ fence @ tag @ nl # b @ nl # fence @ w2) = b"
proof -
  have "py_strip (w1 @ (fence @ tag @ nl # b @ nl # fence) @ w2) = fence @ tag @ nl # b @ nl # fence"
    using assms(2,3) fenced_is_stripped by (rule py_strip_frame)
  then have "clean_response (w1 @ fence @ tag @ nl # b @ nl # fence @ w2) =
      py_strip (strip_fences True (fence @ tag @ nl # b @ nl # fence))"
    by (simp add: clean_response_scanner)
  also have "\<dots> = py_strip (nl # b @ [nl])"
    by (simp only: strip_fences_fenced [OF assms(1,5)])
  also have "\<dots> = b"
    using assms(4) by (rule py_strip_nl_frame)
  finally show ?thesis .
qed


subsection \<open>Properties\<close>

text \<open>
  C3: \<open>parse_resume_with_gemini\<close> sends the model \<open>gemini-1.5-flash\<close>
  exactly the template text in front of the placeholder, the resume text
  verbatim, and the final newline; an exception of the model propagates, and
  a reply is returned cleaned.
\<close>

theorem parse_resume_with_gemini_eq:
  "parse_resume_with_gemini generate t =
     (case generate ''gemini-1.5-flash'' (prompt_head @ t @ [nl]) of
        Inl e \<Rightarrow> Inl e
      | Inr r \<Rightarrow> Inr (clean_response r))"
  by (simp add: parse_resume_with_gemini_def build_prompt_eq gemini_model_def)

text \<open>
  C7: a reply without fences that has no white space at its ends, padded
  with any white space, is returned as it is.
\<close>

theorem clean_response_unfenced:
  assumes "\<forall>c\<in>set w1. py_isspace c" and "\<forall>c\<in>set w2. py_isspace c"
    and "is_stripped b" and "\<not> sublist fence b"
  shows "clean_response (w1 @ b @ w2) = b"
proof -
  have "py_strip (w1 @ b @ w2) = b" using assms(1-3) by (rule py_strip_frame)
  then show ?thesis using assms(3,4) by (simp add: clean_response_scanner strip_fences_absent)
qed

theorem clean_response_unfenced_witness:
  \<open>list_all py_isspace '' '' \<and> list_all py_isspace [nl] \<and> is_stripped ''{"a": 1}'' \<and>
   \<not> sublist fence ''{"a": 1}'' \<and> clean_response ('' '' @ ''{"a": 1}'' @ [nl]) = ''{"a": 1}''\<close>
proof -
  have h: "\<forall>c\<in>set '' ''. py_isspace c" "\<forall>c\<in>set [nl]. py_isspace c"
      \<open>is_stripped ''{"a": 1}''\<close> \<open>\<not> sublist fence ''{"a": 1}''\<close>
    by (simp_all add: py_isspace_def is_stripped_def sublist_code)
  show ?thesis using clean_response_unfenced [OF h] h by simp
qed

text \<open>
  C8: cleaning only deletes: the cleaned text is a subsequence of the reply.
\<close>

theorem clean_response_subseq: "subseq (clean_response r) r"
proof -
  have "subseq (re_sub fence_match [] (py_strip r)) (py_strip r)"
    using re_sub_from_subseq [of fence_match "py_strip r" 0] by (simp add: re_sub_def)
  then have "subseq (re_sub fence_match [] (py_strip r)) r"
    using py_strip_subseq subseq_order.trans by blast
  then show ?thesis
    using py_strip_subseq subseq_order.trans by (metis clean_response_def)
qed

text \<open>
  C13: a reply fenced with a language tag other than \<open>json\<close> (say
  \<open>JSON\<close> or \<open>javascript\<close>) loses only its two fences: the tag line stays,
  and the text handed to \<open>json.loads\<close> is the tag, a newline and the body.
\<close>

theorem clean_response_other_tag:
  assumes "\<forall>c\<in>set w1. py_isspace c" and "\<forall>c\<in>set w2. py_isspace c"
    and "t \<noteq> []" and "nl \<notin> set t" and "\<not> prefix ''json'' t" and "\<not> sublist fence t"
    and "is_stripped t" and "b \<noteq> []" and "is_stripped b" and "\<not> sublist fence b"
  shows "clean_response (w1 @ fence @ t @ nl # b @ nl # fence @ w2) = t @ nl # b"
proof -
  have "py_strip (w1 @ (fence @ t @ nl # b @ nl # fence) @ w2) = fence @ t @ nl # b @ nl # fence"
    using assms(1,2) fenced_is_stripped by (rule py_strip_frame)
  then have "clean_response (w1 @ fence @ t @ nl # b @ nl # fence @ w2) =
      py_strip (strip_fences True (fence @ t @ nl # b @ nl # fence))"
    by (simp add: clean_response_scanner)
  also have "\<dots> = py_strip (t @ nl # b @ [nl])"
    by (simp only: strip_fences_other_tag [OF assms(4-6,10)])
  also have "\<dots> = t @ nl # b"
  proof -
    have "is_stripped (t @ [nl] @ b)" using assms(3,8,7,9) by (rule is_stripped_around)
    then show ?thesis using py_strip_frame [of "[]" "[nl]" "t @ [nl] @ b"] by simp
  qed
  finally show ?thesis .
qed

theorem clean_response_other_tag_witness:
  "list_all py_isspace ([]::pystr) \<and> ''JSON'' \<noteq> [] \<and> nl \<notin> set ''JSON'' \<and>
   \<not> prefix ''json'' ''JSON'' \<and> \<not> sublist fence ''JSON'' \<and> is_stripped ''JSON'' \<and>
   ''{}'' \<noteq> [] \<and> is_stripped ''{}'' \<and> \<not> sublist fence ''{}'' \<and>
   clean_response ([] @ fence @ ''JSON'' @ nl # ''{}'' @ nl # fence @ []) = ''JSON'' @ nl # ''{}''"
proof -
  have h: "nl \<notin> set ''JSON''" "\<not> prefix ''json'' ''JSON''" "\<not> sublist fence ''JSON''"
    "is_stripped ''JSON''" "is_stripped ''{}''" "\<not> sublist fence ''{}''"
    by (simp_all add: py_isspace_def is_stripped_def sublist_code)
  show ?thesis
    using clean_response_other_tag [of "[]" "[]" "''JSON''" "''{}''"] h by simp
qed

text \<open>
  C14: text after the closing fence survives the cleaning: for a fenced body
  followed by a line of commentary, the closing fence is deleted as a fence
  at the start of a line and the text handed to \<open>json.loads\<close> is the
  body, an empty line and the commentary.
\<close>

theorem clean_response_trailing_text:
  assumes "tag \<in> {[], ''json''}" and "\<forall>c\<in>set w1. py_isspace c" and "\<forall>c\<in>set w2. py_isspace c"
    and "b \<noteq> []" and "is_stripped b" and "\<not> sublist fence b"
    and "rest \<noteq> []" and "is_stripped rest" and "\<not> sublist fence rest"
  shows "clean_response (w1 @ fence @ tag @ nl # b @ nl # fence @ nl # rest @ w2) =
           b @ nl # nl # rest"
proof -
  have "is_stripped (fence @ (tag @ nl # b @ nl # fence @ [nl]) @ rest)"
    using assms(7,8) by (intro is_stripped_around) (simp_all add: is_stripped_def)
  then have st: "is_stripped (fence @ tag @ nl # b @ nl # fence @ nl # rest)" by simp
  have "py_strip (w1 @ (fence @ tag @ nl # b @ nl # fence @ nl # rest) @ w2) =
      fence @ tag @ nl # b @ nl # fence @ nl # rest"
    using assms(2,3) st by (rule py_strip_frame)
  then have "clean_response (w1 @ fence @ tag @ nl # b @ nl # fence @ nl # rest @ w2) =
      py_strip (strip_fences True (fence @ tag @ nl # b @ nl # fence @ nl # rest))"
    by (simp add: clean_response_scanner)
  also have "\<dots> = py_strip (nl # b @ nl # nl # rest)"
    by (simp only: strip_fences_trailing [OF assms(1,6,9)])
  also have "\<dots> = b @ nl # nl # rest"
  proof -
    have "is_stripped (b @ [nl, nl] @ rest)" using assms(4,7,5,8) by (rule is_stripped_around)
    then show ?thesis using py_strip_frame [of "[nl]" "[]" "b @ [nl, nl] @ rest"] by simp
  qed
  finally show ?thesis .
qed

theorem clean_response_trailing_text_witness:
  "''json'' \<in> {[], ''json''} \<and> list_all py_isspace ([]::pystr) \<and> list_all py_isspace [nl] \<and>
   ''{}'' \<noteq> [] \<and> is_stripped ''{}'' \<and> \<not> sublist fence ''{}'' \<and>
   ''Done.'' \<noteq> [] \<and> is_stripped ''Done.'' \<and> \<not> sublist fence ''Done.'' \<and>
   clean_response ([] @ fence @ ''json'' @ nl # ''{}'' @ nl # fence @ nl # ''Done.'' @ [nl]) =
     ''{}'' @ nl # nl # ''Done.''"
proof -
  have h: "is_stripped ''{}''" "\<not> sublist fence ''{}''" "is_stripped ''Done.''"
    "\<not> sublist fence ''Done.''" "list_all py_isspace [nl]"
    by (simp_all add: py_isspace_def is_stripped_def sublist_code)
  show ?thesis
    using clean_response_trailing_text [of "''json''" "[]" "[nl]" "''{}''" "''Done.''"] h
    by (simp add: list_all_iff)
qed

end
