(* ===== verification/App.thy ===== *)
theory App
  imports Gemini
begin

text \<open>
  The Streamlit script of \<open>src/resume_parser.py\<close> (lines 84 to 110): one run
  of the script, as Streamlit executes it from the top on every interaction.
  A run is modelled as the list of elements it puts on the page, in order,
  together with the exception that escapes the script, if any (Streamlit
  shows it as a traceback). The collaborators are the fields of the record
  \<open>services\<close>: the PDF reader and the model of \<open>Gemini\<close>, \<open>json.loads\<close>,
  \<open>calculate_score\<close> of the unseen module \<open>ats_score\<close>, and the formatting
  of the score in the f-string of line 105. The emoji that prefix some
  messages of the source lie outside Latin-1 and are left out of the message
  strings; everything else is the source's text.
\<close>

datatype 'j ui_event =
    Title pystr
  | Markdown pystr
  | FileUploader pystr "pystr list"
  | Spinner pystr
  | SpinnerEnd
  | Success pystr
  | Subheader pystr
  | Json 'j
  | Write pystr
  | Error pystr
  | Text pystr

record ('f, 'j, 's) services =
  read_pdf :: "'f pdf_reader"
  generate :: generator
  json_loads :: "pystr \<Rightarrow> exc + 'j"
  calculate_score :: "'j \<Rightarrow> exc + 's"
  format_score :: "'s \<Rightarrow> pystr"

type_synonym 'j run = "'j ui_event list \<times> exc option"

subsection \<open>The page\<close>

definition page_header :: "'j ui_event list" where
  "page_header =
     [Title ''ATS SCORE'', Markdown ''Upload a resume PDF'',
      FileUploader ''Drag and drop a resume PDF here'' [''pdf'']]"

text \<open>
  \<open>with st.spinner(msg):\<close> shows the spinner for the duration of the block
  and removes it when the block ends, also when it raises.
\<close>

definition spinner :: "pystr \<Rightarrow> 'j ui_event list" where
  "spinner msg = [Spinner msg, SpinnerEnd]"

definition extract_msg :: pystr where
  "extract_msg = ''Extracting text from PDF...''"

definition parse_msg :: pystr where
  "parse_msg = ''Parsing resume with Gemini...''"

text \<open>The \<open>except Exception as e\<close> branch, lines 107 to 110.\<close>

definition except_events :: "pystr \<Rightarrow> exc \<Rightarrow> 'j ui_event list" where
  "except_events parsed_json_text e =
     [Error ''Failed to parse JSON output.'',
      Text (''Raw Output:'' @ nl # parsed_json_text),
      Text (''Error: '' @ e)]"

text \<open>
  The \<open>try\<close> block, lines 97 to 105. Every statement of the block can raise;
  the model lets \<open>json.loads\<close> and \<open>calculate_score\<close> do so, the two
  calls whose failure depends on the data. Whatever raises, the same handler
  runs, after the elements the block has already shown.
\<close>

definition try_block :: "('f, 'j, 's) services \<Rightarrow> pystr \<Rightarrow> 'j ui_event list" where
  "try_block sv parsed_json_text =
     (case json_loads sv parsed_json_text of
        Inl e \<Rightarrow> except_events parsed_json_text e
      | Inr parsed_output \<Rightarrow>
          [Success ''Resume successfully parsed!'', Subheader ''Parsed Resume (JSON):'',
           Json parsed_output, Subheader ''ATS Score:''] @
          (case calculate_score sv parsed_output of
             Inl e \<Rightarrow> except_events parsed_json_text e
           | Inr ats_score \<Rightarrow> [Write (''**Score:** '' @ format_score sv ats_score @ ''/100'')]))"

text \<open>
  The script: without an upload it stops after the uploader; with one it
  extracts the text, asks the model, and runs the \<open>try\<close> block. An exception
  of the PDF library or of the model is not caught and ends the run.
\<close>

definition run_app :: "('f, 'j, 's) services \<Rightarrow> 'f option \<Rightarrow> 'j run" where
  "run_app sv uploaded_file =
     (case uploaded_file of
        None \<Rightarrow> (page_header, None)
      | Some f \<Rightarrow>
          (case extract_text_from_pdf (read_pdf sv) f of
             Inl e \<Rightarrow> (page_header @ spinner extract_msg, Some e)
           | Inr resume_text \<Rightarrow>
               (case parse_resume_with_gemini (generate sv) resume_text of
                  Inl e \<Rightarrow> (page_header @ spinner extract_msg @ spinner parse_msg, Some e)
                | Inr parsed_json_text \<Rightarrow>
                    (page_header @ spinner extract_msg @ spinner parse_msg @
                     try_block sv parsed_json_text, None))))"

text \<open>
  A concrete set of collaborators for the witnesses: a one-page PDF, a model
  that answers with a fenced empty object, a JSON reader that accepts exactly
  \<open>{}\<close>, and a scorer that gives 80.
\<close>

abbreviation demo_reply :: pystr where
  "demo_reply \<equiv> ''```json'' @ nl # ''{}'' @ nl # fence"

abbreviation demo_services :: "(unit, nat, nat) services" where
  "demo_services \<equiv>
     \<lparr>read_pdf = (\<lambda>_. Inr [''Skills: Python'']), generate = (\<lambda>_ _. Inr demo_reply),
      json_loads = (\<lambda>t. if t = ''{}'' then Inr 0 else Inl ''Expecting value''),
      calculate_score = (\<lambda>_. Inr 80), format_score = (\<lambda>_. ''80'')\<rparr>"

subsection \<open>The run in terms of the model's reply\<close>

lemma run_app_reply:
  assumes "read_pdf sv f = Inr pages"
    and "generate sv gemini_model (prompt_head @ py_join [nl] pages @ [nl]) = Inr r"
  shows "run_app sv (Some f) =
           (page_header @ spinner extract_msg @ spinner parse_msg @
            try_block sv (clean_response r), None)"
  using assms
  by (simp add: run_app_def extract_text_from_pdf_def parse_resume_with_gemini_def build_prompt_eq)

subsection \<open>Properties\<close>

text \<open>
  C4: when the PDF is read, the model replies, the cleaned reply parses and
  the score is computed, the run shows the success message, the parsed JSON
  and the score line \<open>**Score:** s/100\<close>, in this order, and ends normally.
\<close>

theorem app_success:
  assumes "read_pdf sv f = Inr pages"
    and "generate sv gemini_model (prompt_head @ py_join [nl] pages @ [nl]) = Inr r"
    and "json_loads sv (clean_response r) = Inr j"
    and "calculate_score sv j = Inr sc"
  shows "run_app sv (Some f) =
           (page_header @ spinner extract_msg @ spinner parse_msg @
            [Success ''Resume successfully parsed!'', Subheader ''Parsed Resume (JSON):'',
             Json j, Subheader ''ATS Score:'',
             Write (''**Score:** '' @ format_score sv sc @ ''/100'')], None)"
  using assms by (simp add: run_app_reply try_block_def)

theorem app_success_witness:
  "read_pdf demo_services () = Inr [''Skills: Python''] \<and>
   generate demo_services gemini_model (prompt_head @ py_join [nl] [''Skills: Python''] @ [nl]) =
     Inr demo_reply \<and>
   json_loads demo_services (clean_response demo_reply) = Inr 0 \<and>
   calculate_score demo_services 0 = Inr 80 \<and>
   run_app demo_services (Some ()) =
     (page_header @ spinner extract_msg @ spinner parse_msg @
      [Success ''Resume successfully parsed!'', Subheader ''Parsed Resume (JSON):'',
       Json 0, Subheader ''ATS Score:'', Write (''**Score:** '' @ ''80'' @ ''/100'')], None)"
  using app_success [of demo_services "()" "[''Skills: Python'']" demo_reply 0 80]
  by (simp add: clean_response_scanner py_eval)

text \<open>
  C5: when \<open>json.loads\<close> rejects the cleaned reply, the run shows the
  failure message, the cleaned text and the exception's message, and ends
  normally; nothing of the success path is shown.
\<close>

theorem app_json_error:
  assumes "read_pdf sv f = Inr pages"
    and "generate sv gemini_model (prompt_head @ py_join [nl] pages @ [nl]) = Inr r"
    and "json_loads sv (clean_response r) = Inl e"
  shows "run_app sv (Some f) =
           (page_header @ spinner extract_msg @ spinner parse_msg @
            [Error ''Failed to parse JSON output.'',
             Text (''Raw Output:'' @ nl # clean_response r), Text (''Error: '' @ e)], None)"
  using assms by (simp add: run_app_reply try_block_def except_events_def)

theorem app_json_error_witness:
  "read_pdf demo_services () = Inr [''Skills: Python''] \<and>
   generate (demo_services\<lparr>generate := (\<lambda>_ _. Inr ''Sorry.'')\<rparr>) gemini_model
     (prompt_head @ py_join [nl] [''Skills: Python''] @ [nl]) = Inr ''Sorry.'' \<and>
   json_loads demo_services (clean_response ''Sorry.'') = Inl ''Expecting value'' \<and>
   run_app (demo_services\<lparr>generate := (\<lambda>_ _. Inr ''Sorry.'')\<rparr>) (Some ()) =
     (page_header @ spinner extract_msg @ spinner parse_msg @
      [Error ''Failed to parse JSON output.'', Text (''Raw Output:'' @ nl # ''Sorry.''),
       Text (''Error: '' @ ''Expecting value'')], None)"
proof -
  have c: "clean_response ''Sorry.'' = ''Sorry.''"
    by (simp add: clean_response_scanner py_eval)
  show ?thesis
    using app_json_error [of "demo_services\<lparr>generate := (\<lambda>_ _. Inr ''Sorry.'')\<rparr>" "()"
        "[''Skills: Python'']" "''Sorry.''" "''Expecting value''"]
    by (simp add: c)
qed

text \<open>
  C6: when the JSON parses but \<open>calculate_score\<close> raises, the same handler
  runs after the success path has been shown: the page says that the resume
  was parsed, shows it, and then reports a failure to parse the JSON.
\<close>

theorem app_score_error:
  assumes "read_pdf sv f = Inr pages"
    and "generate sv gemini_model (prompt_head @ py_join [nl] pages @ [nl]) = Inr r"
    and "json_loads sv (clean_response r) = Inr j"
    and "calculate_score sv j = Inl e"
  shows "run_app sv (Some f) =
           (page_header @ spinner extract_msg @ spinner parse_msg @
            [Success ''Resume successfully parsed!'', Subheader ''Parsed Resume (JSON):'',
             Json j, Subheader ''ATS Score:'',
             Error ''Failed to parse JSON output.'',
             Text (''Raw Output:'' @ nl # clean_response r), Text (''Error: '' @ e)], None)"
  using assms by (simp add: run_app_reply try_block_def except_events_def)

theorem app_score_error_witness:
  "read_pdf demo_services () = Inr [''Skills: Python''] \<and>
   generate demo_services gemini_model (prompt_head @ py_join [nl] [''Skills: Python''] @ [nl]) =
     Inr demo_reply \<and>
   json_loads demo_services (clean_response demo_reply) = Inr 0 \<and>
   calculate_score (demo_services\<lparr>calculate_score := (\<lambda>_. Inl ''KeyError'')\<rparr>) 0 = Inl ''KeyError'' \<and>
   run_app (demo_services\<lparr>calculate_score := (\<lambda>_. Inl ''KeyError'')\<rparr>) (Some ()) =
     (page_header @ spinner extract_msg @ spinner parse_msg @
      [Success ''Resume successfully parsed!'', Subheader ''Parsed Resume (JSON):'',
       Json 0, Subheader ''ATS Score:'', Error ''Failed to parse JSON output.'',
       Text (''Raw Output:'' @ nl # ''{}''), Text (''Error: '' @ ''KeyError'')], None)"
  using app_score_error [of "demo_services\<lparr>calculate_score := (\<lambda>_. Inl ''KeyError'')\<rparr>" "()"
      "[''Skills: Python'']" demo_reply 0 "''KeyError''"]
  by (simp add: clean_response_scanner py_eval)

text \<open>
  C9: an exception of the PDF library ends the run after the first spinner;
  the model is never asked: the run is the same whatever it would answer.
\<close>

theorem app_pdf_error:
  assumes "read_pdf sv f = Inl e"
  shows "run_app sv (Some f) = (page_header @ spinner extract_msg, Some e) \<and>
         run_app (sv\<lparr>generate := g\<rparr>) (Some f) = run_app sv (Some f)"
  using assms by (simp add: run_app_def extract_text_from_pdf_def)

theorem app_pdf_error_witness:
  "read_pdf (demo_services\<lparr>read_pdf := (\<lambda>_. Inl ''not a PDF'')\<rparr>) () = Inl ''not a PDF'' \<and>
   run_app (demo_services\<lparr>read_pdf := (\<lambda>_. Inl ''not a PDF'')\<rparr>) (Some ()) =
     (page_header @ spinner extract_msg, Some ''not a PDF'') \<and>
   run_app (demo_services\<lparr>read_pdf := (\<lambda>_. Inl ''not a PDF''), generate := (\<lambda>_ _. Inl ''quota'')\<rparr>)
     (Some ()) = run_app (demo_services\<lparr>read_pdf := (\<lambda>_. Inl ''not a PDF'')\<rparr>) (Some ())"
  using app_pdf_error [of "demo_services\<lparr>read_pdf := (\<lambda>_. Inl ''not a PDF'')\<rparr>" "()"
      "''not a PDF''" "\<lambda>_ _. Inl ''quota''"]
  by simp

text \<open>
  C10: an exception of the model ends the run after the second spinner,
  before anything is parsed or scored.
\<close>

theorem app_llm_error:
  assumes "read_pdf sv f = Inr pages"
    and "generate sv gemini_model (prompt_head @ py_join [nl] pages @ [nl]) = Inl e"
  shows "run_app sv (Some f) = (page_header @ spinner extract_msg @ spinner parse_msg, Some e)"
  using assms
  by (simp add: run_app_def extract_text_from_pdf_def parse_resume_with_gemini_def build_prompt_eq)

theorem app_llm_error_witness:
  "read_pdf demo_services () = Inr [''Skills: Python''] \<and>
   generate (demo_services\<lparr>generate := (\<lambda>_ _. Inl ''quota'')\<rparr>) gemini_model
     (prompt_head @ py_join [nl] [''Skills: Python''] @ [nl]) = Inl ''quota'' \<and>
   run_app (demo_services\<lparr>generate := (\<lambda>_ _. Inl ''quota'')\<rparr>) (Some ()) =
     (page_header @ spinner extract_msg @ spinner parse_msg, Some ''quota'')"
  using app_llm_error [of "demo_services\<lparr>generate := (\<lambda>_ _. Inl ''quota'')\<rparr>" "()"
      "[''Skills: Python'']" "''quota''"]
  by simp

end
