(* ===== verification/Spec2Isabelle.thy ===== *)
theory Spec2Isabelle
  imports App
begin

text \<open>
  \<^bold>\<open>A verification library for the resume parser \<open>src/resume_parser.py\<close>.\<close>

  \<^bold>\<open>The program.\<close> One Streamlit script. On each run it shows a title, a
  line of text and a file uploader; once a PDF is uploaded it
  \<^enum> extracts the text of every page with PyMuPDF and joins the pages with
    newlines (\<open>extract_text_from_pdf\<close>, lines 69 to 72);
  \<^enum> inserts the text into the fixed prompt \<open>PROMPT_TEMPLATE\<close> with
    \<open>str.replace\<close>, sends it to the hosted model \<open>gemini-1.5-flash\<close>, and
    cleans the reply: \<open>strip()\<close>, then \<open>re.sub\<close> of the Markdown-fence
    pattern \<open>^```(?:json)?|```$\<close> under \<open>re.MULTILINE\<close>, then \<open>strip()\<close>
    again (\<open>parse_resume_with_gemini\<close>, lines 75 to 81);
  \<^enum> parses the cleaned text with \<open>json.loads\<close>, shows it, and shows the
    score that \<open>calculate_score\<close> of the unseen module \<open>ats_score\<close> gives
    it; any exception of this last block is reported as a failure to parse
    the JSON (lines 97 to 110).
  The PDF library, the model, \<open>json.loads\<close> and the scorer are
  collaborators the program only calls; exceptions of the first two are not
  caught and end the run.

  \<^bold>\<open>The theories.\<close>
  \<^item> \<open>Prelude\<close>: the types \<open>pystr\<close> (a Python \<open>str\<close> of code points below
    256, as a \<^typ>\<open>string\<close>) and \<open>exc\<close> (an exception, by its message), the
    newline and the fence, the collection \<open>py_eval\<close> of evaluation equations,
    and lemmas on prefixes taken with \<open>take\<close>.
  \<^item> \<open>Py_Str\<close>: the built-ins \<open>str.isspace\<close>, \<open>strip\<close> (\<open>py_strip\<close>),
    \<open>sep.join\<close> (\<open>py_join\<close>) and \<open>str.replace\<close> (\<open>py_replace\<close>) as the
    program calls them, with the framing lemmas the other theories use
    (what \<open>strip\<close> removes around a stripped text, where \<open>replace\<close> makes
    its first replacement, where a pattern can occur in a joined string).
    It states no property of its own: these are library functions, and
    their facts matter only through the program's use of them.
  \<^item> \<open>Fence_Regex\<close>: the regex fragment of line 80 as a datatype \<open>re\<close>, a
    backtracking matcher \<open>re_match\<close> with Python's leftmost-first, greedy and
    multi-line semantics, the pattern \<open>fence_re\<close>, \<open>re.sub\<close> as
    \<open>re_sub\<close>, a single-pass scanner \<open>strip_fences\<close>, and the declarative
    semantics \<open>re_lang\<close> of the fragment (an inductive relation with
    \<open>code_pred\<close>). Lemmas: the substitution of line 80 equals the scanner
    (C2), matches of the pattern are 3 or 7 characters (C11), and the match
    the matcher's priorities choose is the longest the pattern allows (C12).
  \<^item> \<open>Gemini\<close>: \<open>PROMPT_TEMPLATE\<close> (the literal, line by line),
    \<open>extract_text_from_pdf\<close>, \<open>build_prompt\<close>, \<open>clean_response\<close> and
    \<open>parse_resume_with_gemini\<close>, with the reader and the model as parameters.
    Lemmas: the model receives the template head, the resume text verbatim
    and a newline (C3), a reply without fences is kept (C7), cleaning only
    deletes (C8), a fence tagged other than \<open>json\<close> leaves its tag line in
    front of the body (C13), and commentary after the closing fence is kept
    after an empty line (C14).
  \<^item> \<open>App\<close>: the script as \<open>run_app\<close>, the list of page elements
    (\<open>ui_event\<close>) of one run and the exception that escapes it, over a
    record \<open>services\<close> of the collaborators. Lemmas: one per path of the
    script with an upload: success (C4), JSON failure (C5), scoring failure
    (C6), PDF failure (C9), model failure (C10).
  \<^item> this theory: the end-to-end property across the components (C1).

  \<^bold>\<open>Modelling choices.\<close> Every function is total and executable; the two
  loops, \<open>re_sub_from\<close> and \<open>strip_fences\<close>, terminate by a measure on the
  remaining length, so no fuel is needed. Collaborators that may raise return
  \<open>exc + 'a\<close>. The emoji prefixes of the messages are outside Latin-1 and
  are left out of the message strings. The matcher covers the regex
  constructs the pattern uses (literals, \<open>^\<close>, \<open>$\<close>, concatenation,
  alternation, greedy \<open>?\<close>); a match that does not advance is treated as no
  match, and position \<open>len(s)\<close> is never tried; neither matters for
  the fence pattern, whose matches are never empty (C11) and which cannot
  match at the end of the string (every match starts with a backtick).

  \<^bold>\<open>Plan.\<close> Modelled first is what decides whether a resume is parsed at
  all: the cleaning of the reply and the regular expression under it, then
  the prompt, then the paths of the script. Left for later: a log of the
  collaborator calls of a run, so that their order (reader, model, \<open>json.loads\<close>, scorer) is an explicit sequence refining
  \<open>run_app\<close>; the JSON shape the prompt asks for (Skills, Certifications,
  Projects, Work Experience) as a datatype of JSON values and a predicate, as
  the contract a parameter \<open>json_loads\<close> must meet for the page to show the
  sections; strings of arbitrary code points, to keep the emoji of the
  messages.

  \<^bold>\<open>Not modelled.\<close> The configuration of lines 9 to 11 (it sets an
  environment variable and configures the client library, with no logic);
  the internals of PyMuPDF, of the model, of \<open>json.loads\<close> and of
  \<open>calculate_score\<close>, which the program only calls; Streamlit's rendering of
  the elements, and its rerun loop around the script (every interaction
  runs the script again from the top with the uploader's current value):
  that loop is framework behaviour with no code in the repository, and
  \<open>run_app\<close> is one pass of it.
\<close>

text \<open>
  C1: when the model answers with a JSON body in a Markdown fence (tagged
  \<open>json\<close> or not, with any white space around it), the body has no fence
  inside and no white space at its ends, \<open>json.loads\<close> accepts the body
  and the scorer succeeds, the run shows exactly that parsed value and its
  score: the cleaning hands \<open>json.loads\<close> the body itself.
\<close>

theorem fenced_reply_scored:
  assumes "read_pdf sv f = Inr pages"
    and "generate sv gemini_model (prompt_head @ py_join [nl] pages @ [nl]) =
           Inr (w1 @ fence @ tag @ nl # b @ nl # fence @ w2)"
    and "tag \<in> {[], ''json''}"
    and "\<forall>c\<in>set w1. py_isspace c" and "\<forall>c\<in>set w2. py_isspace c"
    and "is_stripped b" and "\<not> sublist fence b"
    and "json_loads sv b = Inr j" and "calculate_score sv j = Inr sc"
  shows "run_app sv (Some f) =
           (page_header @ spinner extract_msg @ spinner parse_msg @
            [Success ''Resume successfully parsed!'', Subheader ''Parsed Resume (JSON):'',
             Json j, Subheader ''ATS Score:'',
             Write (''**Score:** '' @ format_score sv sc @ ''/100'')], None)"
proof -
  have "clean_response (w1 @ fence @ tag @ nl # b @ nl # fence @ w2) = b"
    using assms(3-7) by (rule clean_response_fenced_body)
  with assms show ?thesis by (simp add: run_app_reply try_block_def)
qed

theorem fenced_reply_scored_witness:
  "read_pdf demo_services () = Inr [''Skills: Python''] \<and>
   generate demo_services gemini_model (prompt_head @ py_join [nl] [''Skills: Python''] @ [nl]) =
     Inr ([] @ fence @ ''json'' @ nl # ''{}'' @ nl # fence @ []) \<and>
   ''json'' \<in> {[], ''json''} \<and>
   list_all py_isspace ([]::pystr) \<and> is_stripped ''{}'' \<and> \<not> sublist fence ''{}'' \<and>
   json_loads demo_services ''{}'' = Inr 0 \<and> calculate_score demo_services 0 = Inr 80 \<and>
   run_app demo_services (Some ()) =
     (page_header @ spinner extract_msg @ spinner parse_msg @
      [Success ''Resume successfully parsed!'', Subheader ''Parsed Resume (JSON):'',
       Json 0, Subheader ''ATS Score:'', Write (''**Score:** '' @ ''80'' @ ''/100'')], None)"
proof -
  have h: "is_stripped ''{}''" "\<not> sublist fence ''{}''"
    by (simp_all add: is_stripped_def py_isspace_def sublist_code)
  show ?thesis
    using fenced_reply_scored [of demo_services "()" "[''Skills: Python'']" "[]" "''json''" "''{}''"
        "[]" 0 80] h
    by simp
qed

end
